theory Spec2Isabelle
  imports Main
begin

section \<open>Go values\<close>

text \<open>
  A Go byte is an 8-bit value, as a HOL \<open>char\<close> is; a \<open>[]byte\<close> is a list of them, and
  the conversion \<open>string(b)\<close> keeps the bytes as they are. A nil slice is the empty list
  (the code under study never compares a slice with nil). A Go \<open>error\<close> is a value
  carrying its message; a nil error is \<open>None\<close> of \<open>error option\<close>.
\<close>

type_synonym bytes = "char list"

datatype error = Error string

text \<open>
  A method call on a nil interface value or through a nil pointer is a run-time panic.
  Every operation that can reach such a call returns an \<open>outcome\<close>.
\<close>

datatype 'a outcome = Panics | Returns 'a

section \<open>Config and its validation\<close>

text \<open>The struct \<open>Config\<close>, fields in declaration order.\<close>

record Config =
  Account :: string
  APIKey :: string
  ApplianceURL :: string
  Login :: string
  AuthnTokenFile :: string

text \<open>
  What reflection sees of a \<open>Config\<close> value: for each field, in declaration order,
  its name, its struct tag as a list of key and value pairs, and its value.
  \<open>Tag_Get\<close> is \<open>reflect.StructTag.Get\<close>: the value under the key, or the empty
  string when the tag has no such key.
\<close>

definition tagName :: string where
  "tagName = ''validate''"

definition Tag_Get :: "(string \<times> string) list \<Rightarrow> string \<Rightarrow> string" where
  "Tag_Get tag key = (case map_of tag key of None \<Rightarrow> [] | Some v \<Rightarrow> v)"

definition Config_fields :: "Config \<Rightarrow> (string \<times> (string \<times> string) list \<times> string) list" where
  "Config_fields c =
     [(''Account'', [(''validate'', ''required'')], Account c),
      (''APIKey'', [], APIKey c),
      (''ApplianceURL'', [(''validate'', ''required'')], ApplianceURL c),
      (''Login'', [], Login c),
      (''AuthnTokenFile'', [], AuthnTokenFile c)]"

text \<open>\<open>strings.Join\<close>.\<close>

fun Join :: "string list \<Rightarrow> string \<Rightarrow> string" where
  "Join [] sep = []"
| "Join [x] sep = x"
| "Join (x # y # xs) sep = x @ sep @ Join (y # xs) sep"

text \<open>
  The loop of \<open>validate\<close> over the fields \<open>i = 0 .. NumField - 1\<close>, with the slice
  \<open>errors\<close> as accumulator; every field of \<open>Config\<close> is a string, so the type
  assertion \<open>val.(string)\<close> holds.
\<close>

fun validate_loop ::
  "(string \<times> (string \<times> string) list \<times> string) list \<Rightarrow> string list \<Rightarrow> string list" where
  "validate_loop [] errors = errors"
| "validate_loop ((name, fieldTag, val) # fs) errors =
     (let tag = Tag_Get fieldTag tagName
      in if tag = ''required'' then
           (if val = [] then validate_loop fs (errors @ [name @ '' is required.''])
            else validate_loop fs errors)
         else validate_loop fs errors)"

text \<open>\<open>validate\<close>: nil, or the error made by \<open>fmt.Errorf("%s", strings.Join(errors, "\n"))\<close>.\<close>

definition validate :: "Config \<Rightarrow> error option" where
  "validate c =
     (let errors = validate_loop (Config_fields c) []
      in if length errors = 0 then None
         else Some (Error (Join errors [CHR 0x0A])))"

text \<open>The messages \<open>validate\<close> owes for the required fields that are empty.\<close>

definition missing_required :: "Config \<Rightarrow> string list" where
  "missing_required c =
     (if Account c = [] then [''Account is required.''] else []) @
     (if ApplianceURL c = [] then [''ApplianceURL is required.''] else [])"

section \<open>Collaborators of the client\<close>

text \<open>
  An HTTP request and response, as far as the client's authentication code reads and
  writes them. \<open>Header\<close> is Go's \<open>map[string][]string\<close>; the router builds every
  request with \<open>http.NewRequest\<close>, which allocates the map.
\<close>

record Request =
  Method :: string
  URL :: string
  Header :: "string \<rightharpoonup> string list"
  Body :: bytes

record Response =
  StatusCode :: int
  ResponseBody :: bytes

text \<open>
  \<open>http.Header.Set\<close> replaces every value stored under the key by the single new one.
  (The key is put into canonical MIME form first; \<open>Authorization\<close>, the only key the
  client sets, is in that form already.)
\<close>

definition Header_Set :: "(string \<rightharpoonup> string list) \<Rightarrow> string \<Rightarrow> string \<Rightarrow> (string \<rightharpoonup> string list)" where
  "Header_Set h key v = h(key \<mapsto> [v])"

text \<open>
  \<open>base64.StdEncoding.EncodeToString\<close>: three bytes become four characters of the
  standard alphabet; a last group of one or two bytes is padded with \<open>=\<close>.
\<close>

definition encodeStd :: string where
  "encodeStd = ''ABCDEFGHIJKLMNOPQRSTUVWXYZabcdefghijklmnopqrstuvwxyz0123456789+/''"

definition encode6 :: "nat \<Rightarrow> char" where
  "encode6 v = encodeStd ! (v mod 64)"

fun EncodeToString :: "bytes \<Rightarrow> string" where
  "EncodeToString [] = []"
| "EncodeToString [a] =
     (let v = of_char a * 65536
      in [encode6 (v div 262144), encode6 (v div 4096), CHR ''='', CHR ''=''])"
| "EncodeToString [a, b] =
     (let v = of_char a * 65536 + of_char b * 256
      in [encode6 (v div 262144), encode6 (v div 4096), encode6 (v div 64), CHR ''=''])"
| "EncodeToString (a # b # c # rest) =
     (let v = of_char a * 65536 + of_char b * 256 + of_char c
      in [encode6 (v div 262144), encode6 (v div 4096), encode6 (v div 64), encode6 v]
         @ EncodeToString rest)"

text \<open>
  The calls the client makes on its authenticator and on its credential storage, in the
  order it makes them. The Go client keeps no such list: \<open>calls\<close> below is a ghost
  field, there so the number and kind of calls an operation makes can be stated.
\<close>

datatype call =
    Call_RefreshToken
  | Call_ReadAuthnToken
  | Call_StoreAuthnToken bytes
  | Call_StoreCredentials string string
  | Call_PurgeCredentials

text \<open>
  The repository's code below the client is not among the source files at hand: package
  \<open>authn\<close> with the token type, the implementations of the \<open>Authenticator\<close> and
  credential-storage interfaces, the request router, the HTTP client and package
  \<open>response\<close>. They are parameters of the model, one field each:

  \<^item> \<open>NewToken\<close>, \<open>Token_FromJSON\<close> (the token after the call; the client ignores the
    error it returns), \<open>Token_Raw\<close>, \<open>Token_ShouldRefresh\<close> (at the time of the one call
    an operation makes);
  \<^item> the interface \<open>Authenticator\<close> over a state \<open>'auth\<close>: \<open>RefreshToken\<close> returns the
    pair of token bytes and error, and the authenticator's next state;
  \<^item> the storage interface over a state \<open>'store\<close>: each method returns its result and
    the next state of the store;
  \<^item> \<open>LoginRequest\<close>, \<open>OidcAuthenticateRequest\<close>, \<open>httpClient.Do\<close> and
    \<open>response.DataResponse\<close>, each called once by the operation that uses it.
\<close>

record ('tok, 'auth, 'store) Env =
  NewToken :: "bytes \<Rightarrow> error + 'tok"
  Token_FromJSON :: "'tok \<Rightarrow> bytes \<Rightarrow> 'tok"
  Token_Raw :: "'tok \<Rightarrow> bytes"
  Token_ShouldRefresh :: "'tok \<Rightarrow> bool"
  Authenticator_RefreshToken :: "'auth \<Rightarrow> (bytes \<times> error option) \<times> 'auth"
  Authenticator_NeedsTokenRefresh :: "'auth \<Rightarrow> bool"
  Storage_ReadAuthnToken :: "'store \<Rightarrow> (bytes \<times> error option) \<times> 'store"
  Storage_StoreAuthnToken :: "'store \<Rightarrow> bytes \<Rightarrow> error option \<times> 'store"
  Storage_StoreCredentials :: "'store \<Rightarrow> string \<Rightarrow> string \<Rightarrow> error option \<times> 'store"
  Storage_PurgeCredentials :: "'store \<Rightarrow> error option \<times> 'store"
  LoginRequest :: "string \<Rightarrow> string \<Rightarrow> error + Request"
  OidcAuthenticateRequest :: "string \<Rightarrow> string \<Rightarrow> string \<Rightarrow> error + Request"
  httpClient_Do :: "Request \<Rightarrow> error + Response"
  DataResponse :: "Response \<Rightarrow> bytes \<times> error option"

section \<open>The client\<close>

text \<open>
  The fields of \<open>Client\<close> that its authentication code uses. \<open>AuthnType\<close> stands for
  \<open>c.GetConfig().AuthnType\<close>. \<open>authToken\<close> is a pointer, \<open>authenticator\<close> and
  \<open>storage\<close> are interface values: each may be nil, which is \<open>None\<close>.
\<close>

record ('tok, 'auth, 'store) Client =
  AuthnType :: string
  authToken :: "'tok option"
  authenticator :: "'auth option"
  storage :: "'store option"
  calls :: "call list"

text \<open>
  \<open>readCachedAccessToken\<close>. The call \<open>c.storage.ReadAuthnToken()\<close> is made with no
  nil check on \<open>c.storage\<close>.
\<close>

definition readCachedAccessToken ::
  "('tok, 'auth, 'store) Env \<Rightarrow> ('tok, 'auth, 'store) Client
     \<Rightarrow> ('tok option \<times> ('tok, 'auth, 'store) Client) outcome" where
  "readCachedAccessToken E c =
     (case storage c of
        None \<Rightarrow> Panics
      | Some st \<Rightarrow>
          (case Storage_ReadAuthnToken E st of
             ((tokenBytes, err), st') \<Rightarrow>
               (let c' = c\<lparr>storage := Some st', calls := calls c @ [Call_ReadAuthnToken]\<rparr>
                in case err of
                     Some e \<Rightarrow> Returns (None, c')
                   | None \<Rightarrow>
                       (case NewToken E tokenBytes of
                          Inl e \<Rightarrow> Returns (None, c')
                        | Inr token \<Rightarrow>
                            Returns (Some (Token_FromJSON E token (Token_Raw E token)), c')))))"

text \<open>
  \<open>NeedsTokenRefresh\<close>: Go's \<open>||\<close> evaluates its right operand only when the left one
  is false.
\<close>

definition NeedsTokenRefresh ::
  "('tok, 'auth, 'store) Env \<Rightarrow> ('tok, 'auth, 'store) Client \<Rightarrow> bool outcome" where
  "NeedsTokenRefresh E c =
     (case authToken c of
        None \<Rightarrow> Returns True
      | Some t \<Rightarrow>
          if Token_ShouldRefresh E t then Returns True
          else (case authenticator c of
                  None \<Rightarrow> Panics
                | Some a \<Rightarrow> Returns (Authenticator_NeedsTokenRefresh E a)))"

text \<open>\<open>refreshToken\<close>: the result is the error returned (nil is \<open>None\<close>) and the client after the call.\<close>

definition refreshToken ::
  "('tok, 'auth, 'store) Env \<Rightarrow> ('tok, 'auth, 'store) Client
     \<Rightarrow> (error option \<times> ('tok, 'auth, 'store) Client) outcome" where
  "refreshToken E c =
     (case authenticator c of
        None \<Rightarrow> Panics
      | Some a \<Rightarrow>
          (case Authenticator_RefreshToken E a of
             ((tokenBytes, err), a') \<Rightarrow>
               (let c' = c\<lparr>authenticator := Some a', calls := calls c @ [Call_RefreshToken]\<rparr>
                in case err of
                     Some e \<Rightarrow> Returns (Some e, c')
                   | None \<Rightarrow>
                       (case NewToken E tokenBytes of
                          Inl e \<Rightarrow> Returns (Some e, c')
                        | Inr token \<Rightarrow>
                            Returns (None,
                              c'\<lparr>authToken := Some (Token_FromJSON E token tokenBytes)\<rparr>)))))"

definition ForceRefreshToken ::
  "('tok, 'auth, 'store) Env \<Rightarrow> ('tok, 'auth, 'store) Client
     \<Rightarrow> (error option \<times> ('tok, 'auth, 'store) Client) outcome" where
  "ForceRefreshToken E c = refreshToken E c"

text \<open>
  The first statement of \<open>RefreshToken\<close>: with \<open>AuthnType\<close> \<open>"oidc"\<close> the cached token
  is read and, when there is one, becomes the client's token.
\<close>

definition fetchCachedToken ::
  "('tok, 'auth, 'store) Env \<Rightarrow> ('tok, 'auth, 'store) Client
     \<Rightarrow> ('tok, 'auth, 'store) Client outcome" where
  "fetchCachedToken E c =
     (if AuthnType c = ''oidc'' then
        (case readCachedAccessToken E c of
           Panics \<Rightarrow> Panics
         | Returns (token, c') \<Rightarrow>
             (case token of
                Some t \<Rightarrow> Returns (c'\<lparr>authToken := Some t\<rparr>)
              | None \<Rightarrow> Returns c'))
      else Returns c)"

text \<open>The rest of \<open>RefreshToken\<close>: \<open>if c.NeedsTokenRefresh() { return c.refreshToken() }; return nil\<close>.\<close>

definition refreshIfNeeded ::
  "('tok, 'auth, 'store) Env \<Rightarrow> ('tok, 'auth, 'store) Client
     \<Rightarrow> (error option \<times> ('tok, 'auth, 'store) Client) outcome" where
  "refreshIfNeeded E c =
     (case NeedsTokenRefresh E c of
        Panics \<Rightarrow> Panics
      | Returns needed \<Rightarrow>
          if needed then refreshToken E c else Returns (None, c))"

definition RefreshToken ::
  "('tok, 'auth, 'store) Env \<Rightarrow> ('tok, 'auth, 'store) Client
     \<Rightarrow> (error option \<times> ('tok, 'auth, 'store) Client) outcome" where
  "RefreshToken E c =
     (case fetchCachedToken E c of
        Panics \<Rightarrow> Panics
      | Returns c' \<Rightarrow> refreshIfNeeded E c')"

text \<open>
  The value \<open>createAuthRequest\<close> puts into the header:
  \<open>fmt.Sprintf("Token token=\"%s\"", base64.StdEncoding.EncodeToString(raw))\<close>.
\<close>

definition authHeaderValue :: "bytes \<Rightarrow> string" where
  "authHeaderValue raw = ''Token token='' @ [CHR 0x22] @ EncodeToString raw @ [CHR 0x22]"

text \<open>The statement \<open>req.Header.Set("Authorization", ...)\<close> of \<open>createAuthRequest\<close>.\<close>

definition setAuthorization :: "bytes \<Rightarrow> Request \<Rightarrow> Request" where
  "setAuthorization raw req =
     req\<lparr>Header := Header_Set (Header req) ''Authorization'' (authHeaderValue raw)\<rparr>"

text \<open>
  \<open>createAuthRequest\<close>: the error returned, the client and the request after the call.
  \<open>c.authToken.Raw()\<close> on a nil token would be a nil-pointer panic.
\<close>

definition createAuthRequest ::
  "('tok, 'auth, 'store) Env \<Rightarrow> ('tok, 'auth, 'store) Client \<Rightarrow> Request
     \<Rightarrow> (error option \<times> ('tok, 'auth, 'store) Client \<times> Request) outcome" where
  "createAuthRequest E c req =
     (case RefreshToken E c of
        Panics \<Rightarrow> Panics
      | Returns (Some err, c') \<Rightarrow> Returns (Some err, c', req)
      | Returns (None, c') \<Rightarrow>
          (case authToken c' of
             None \<Rightarrow> Panics
           | Some t \<Rightarrow> Returns (None, c', setAuthorization (Token_Raw E t) req)))"

text \<open>
  \<open>Client.Login\<close> (named \<open>Client_Login\<close>: \<open>Login\<close> is a field of \<open>Config\<close>). The result
  is the pair of API key and error that Go returns, and the client after the call.
\<close>

definition Client_Login ::
  "('tok, 'auth, 'store) Env \<Rightarrow> ('tok, 'auth, 'store) Client \<Rightarrow> string \<Rightarrow> string
     \<Rightarrow> (bytes \<times> error option) \<times> ('tok, 'auth, 'store) Client" where
  "Client_Login E c login password =
     (case LoginRequest E login password of
        Inl err \<Rightarrow> (([], Some err), c)
      | Inr req \<Rightarrow>
          (case httpClient_Do E req of
             Inl err \<Rightarrow> (([], Some err), c)
           | Inr res \<Rightarrow>
               (case DataResponse E res of
                  (apiKey, Some err) \<Rightarrow> (([], Some err), c)
                | (apiKey, None) \<Rightarrow>
                    (case storage c of
                       None \<Rightarrow> ((apiKey, None), c)
                     | Some st \<Rightarrow>
                         (case Storage_StoreCredentials E st login apiKey of
                            (err, st') \<Rightarrow>
                              ((apiKey, err),
                               c\<lparr>storage := Some st',
                                 calls := calls c @ [Call_StoreCredentials login apiKey]\<rparr>))))))"

text \<open>\<open>Client.PurgeCredentials\<close>.\<close>

definition PurgeCredentials ::
  "('tok, 'auth, 'store) Env \<Rightarrow> ('tok, 'auth, 'store) Client
     \<Rightarrow> error option \<times> ('tok, 'auth, 'store) Client" where
  "PurgeCredentials E c =
     (case storage c of
        None \<Rightarrow> (None, c)
      | Some st \<Rightarrow>
          (case Storage_PurgeCredentials E st of
             (err, st') \<Rightarrow>
               (err, c\<lparr>storage := Some st', calls := calls c @ [Call_PurgeCredentials]\<rparr>)))"

text \<open>\<open>InternalAuthenticate\<close>.\<close>

definition InternalAuthenticate ::
  "('tok, 'auth, 'store) Env \<Rightarrow> ('tok, 'auth, 'store) Client
     \<Rightarrow> ((bytes \<times> error option) \<times> ('tok, 'auth, 'store) Client) outcome" where
  "InternalAuthenticate E c =
     (case authenticator c of
        None \<Rightarrow>
          Returns (([], Some (Error ''unable to authenticate using client without authenticator'')), c)
      | Some a \<Rightarrow>
          if AuthnType c = ''oidc'' then
            (case readCachedAccessToken E c of
               Panics \<Rightarrow> Panics
             | Returns (token, c') \<Rightarrow>
                 (case token of
                    Some t \<Rightarrow>
                      if \<not> Token_ShouldRefresh E t then Returns ((Token_Raw E t, None), c')
                      else Returns (([], Some (Error ''No valid OIDC token found. Please login again.'')), c')
                  | None \<Rightarrow>
                      Returns (([], Some (Error ''No valid OIDC token found. Please login again.'')), c')))
          else
            (case Authenticator_RefreshToken E a of
               (r, a') \<Rightarrow>
                 Returns (r, c\<lparr>authenticator := Some a',
                               calls := calls c @ [Call_RefreshToken]\<rparr>)))"

text \<open>
  \<open>OidcAuthenticate\<close>: the response bytes and the error are returned as
  \<open>response.DataResponse\<close> gave them; the error of \<open>StoreAuthnToken\<close> is dropped.
\<close>

definition OidcAuthenticate ::
  "('tok, 'auth, 'store) Env \<Rightarrow> ('tok, 'auth, 'store) Client \<Rightarrow> string \<Rightarrow> string \<Rightarrow> string
     \<Rightarrow> (bytes \<times> error option) \<times> ('tok, 'auth, 'store) Client" where
  "OidcAuthenticate E c code nonce code_verifier =
     (case OidcAuthenticateRequest E code nonce code_verifier of
        Inl err \<Rightarrow> (([], Some err), c)
      | Inr req \<Rightarrow>
          (case httpClient_Do E req of
             Inl err \<Rightarrow> (([], Some err), c)
           | Inr res \<Rightarrow>
               (case DataResponse E res of
                  (resp, err) \<Rightarrow>
                    (case storage c of
                       Some st \<Rightarrow>
                         if err = None then
                           (case Storage_StoreAuthnToken E st resp of
                              (_, st') \<Rightarrow>
                                ((resp, err),
                                 c\<lparr>storage := Some st',
                                   calls := calls c @ [Call_StoreAuthnToken resp]\<rparr>))
                         else ((resp, err), c)
                     | None \<Rightarrow> ((resp, err), c)))))"


section \<open>The token's freshness policy\<close>

text \<open>
  Modelled from the spec: the token type of package \<open>authn\<close> and its method
  \<open>ShouldRefresh\<close> are not among the source files. A token has its raw bytes and the
  issuance time derived from them. With the service's token lifetime \<open>L\<close> and the
  refresh margin \<open>M\<close>, a token should be refreshed once the time elapsed since its
  issuance has reached \<open>L - M\<close>. Times are whole seconds.
\<close>

record Token =
  rawBytes :: bytes
  issuedAt :: int

definition ShouldRefresh :: "int \<Rightarrow> int \<Rightarrow> int \<Rightarrow> Token \<Rightarrow> bool" where
  "ShouldRefresh L M now t = (let elapsed = now - issuedAt t in L - M \<le> elapsed)"

text \<open>
  Modelled from the spec: \<open>Raw\<close> gives back the exact bytes a token was made from,
  by \<open>NewToken\<close> or by \<open>FromJSON\<close>.
\<close>

definition Raw_exact :: "('tok, 'auth, 'store) Env \<Rightarrow> bool" where
  "Raw_exact E =
     ((\<forall>b t. NewToken E b = Inr t \<longrightarrow> Token_Raw E t = b) \<and>
      (\<forall>t b. Token_Raw E (Token_FromJSON E t b) = b))"

section \<open>Stub collaborators\<close>

text \<open>
  Collaborators for running the client on concrete inputs, in the manner of the
  repository's tests, which wire an authenticator to a stub delegate.

  \<^item> A token is its bytes; the empty payload does not parse; the payload
    \<open>expired-token\<close> is the one that should be refreshed.
  \<^item> An authenticator is the list of replies it will give, one per call; with none
    left it answers \<open>401 Invalid\<close>.
  \<^item> A store is its cached token, if any, and a flag for a backend that fails every
    call.
  \<^item> The server answers every request with status 200 and the body \<open>data\<close>.
\<close>

definition stubEnv :: "(bytes, (bytes \<times> error option) list, bytes option \<times> bool) Env" where
  "stubEnv =
     \<lparr>NewToken = (\<lambda>b. if b = [] then Inl (Error ''malformed token'') else Inr b),
      Token_FromJSON = (\<lambda>t b. b),
      Token_Raw = (\<lambda>t. t),
      Token_ShouldRefresh = (\<lambda>t. t = ''expired-token''),
      Authenticator_RefreshToken =
        (\<lambda>a. case a of [] \<Rightarrow> (([], Some (Error ''401 Invalid'')), [])
                     | r # rs \<Rightarrow> (r, rs)),
      Authenticator_NeedsTokenRefresh = (\<lambda>a. False),
      Storage_ReadAuthnToken =
        (\<lambda>st. case st of
                 (_, True) \<Rightarrow> (([], Some (Error ''store unavailable'')), st)
               | (None, False) \<Rightarrow> (([], Some (Error ''no cached token'')), st)
               | (Some b, False) \<Rightarrow> ((b, None), st)),
      Storage_StoreAuthnToken =
        (\<lambda>st b. if snd st then (Some (Error ''store unavailable''), st)
                 else (None, (Some b, False))),
      Storage_StoreCredentials =
        (\<lambda>st login key. if snd st then (Some (Error ''store unavailable''), st)
                         else (None, st)),
      Storage_PurgeCredentials =
        (\<lambda>st. if snd st then (Some (Error ''store unavailable''), st)
                else (None, (None, False))),
      LoginRequest =
        (\<lambda>login password.
           Inr \<lparr>Method = ''GET'', URL = ''/authn/login'', Header = Map.empty, Body = []\<rparr>),
      OidcAuthenticateRequest =
        (\<lambda>code nonce code_verifier.
           Inr \<lparr>Method = ''POST'', URL = ''/authn-oidc/authenticate'', Header = Map.empty,
                Body = code\<rparr>),
      httpClient_Do = (\<lambda>req. Inr \<lparr>StatusCode = 200, ResponseBody = ''data''\<rparr>),
      DataResponse = (\<lambda>res. (ResponseBody res, None))\<rparr>"

text \<open>A client of the stub collaborators, by its fields.\<close>

definition stubClient ::
  "string \<Rightarrow> bytes option \<Rightarrow> (bytes \<times> error option) list option \<Rightarrow> (bytes option \<times> bool) option
     \<Rightarrow> (bytes, (bytes \<times> error option) list, bytes option \<times> bool) Client" where
  "stubClient ty tok a st =
     \<lparr>AuthnType = ty, authToken = tok, authenticator = a, storage = st, calls = []\<rparr>"

text \<open>A bare GET request.\<close>

definition stubRequest :: Request where
  "stubRequest = \<lparr>Method = ''GET'', URL = ''/secrets'', Header = Map.empty, Body = []\<rparr>"

section \<open>Properties of Config validation\<close>

lemma validate_loop_fields:
  "validate_loop (Config_fields c) [] = missing_required c"
  by (simp add: Config_fields_def missing_required_def Tag_Get_def tagName_def)

text \<open>
  Claim C10. For every Config value, validate returns nil if and only if both Account and
  ApplianceURL are non-empty; otherwise it returns an error whose message is the
  newline-joined list of "Account is required." and/or "ApplianceURL is required." for
  exactly the empty required fields, in declaration order; the fields APIKey, Login and
  AuthnTokenFile never affect the result.
\<close>

theorem validate_required_fields:
  "(validate c = None \<longleftrightarrow> Account c \<noteq> [] \<and> ApplianceURL c \<noteq> [])
   \<and> (validate c \<noteq> None \<longrightarrow>
        validate c = Some (Error (Join (missing_required c) [CHR 0x0A])))
   \<and> validate (c\<lparr>APIKey := k, Login := l, AuthnTokenFile := f\<rparr>) = validate c"
  by (simp add: validate_def validate_loop_fields missing_required_def)

theorem validate_required_fields_witness:
  "validate \<lparr>Account = [], APIKey = ''k'', ApplianceURL = [], Login = ''l'',
             AuthnTokenFile = ''f''\<rparr>
     = Some (Error (''Account is required.'' @ [CHR 0x0A] @ ''ApplianceURL is required.''))
   \<and> validate \<lparr>Account = ''acct'', APIKey = [], ApplianceURL = ''https://conjur'',
               Login = [], AuthnTokenFile = []\<rparr> = None"
  using validate_required_fields
          [of "\<lparr>Account = [], APIKey = ''k'', ApplianceURL = [], Login = ''l'',
                AuthnTokenFile = ''f''\<rparr>"]
        validate_required_fields
          [of "\<lparr>Account = ''acct'', APIKey = [], ApplianceURL = ''https://conjur'',
                Login = [], AuthnTokenFile = []\<rparr>"]
  by (simp add: missing_required_def)

section \<open>Properties of the client's token handling\<close>

lemma refreshToken_Returns:
  assumes "authenticator c = Some a"
    and "Authenticator_RefreshToken E a = ((tokenBytes, err), a')"
  shows "refreshToken E c =
           Returns (case err of
                      Some e \<Rightarrow> (Some e, c\<lparr>authenticator := Some a', calls := calls c @ [Call_RefreshToken]\<rparr>)
                    | None \<Rightarrow>
                        (case NewToken E tokenBytes of
                           Inl e \<Rightarrow> (Some e, c\<lparr>authenticator := Some a', calls := calls c @ [Call_RefreshToken]\<rparr>)
                         | Inr token \<Rightarrow>
                             (None, c\<lparr>authenticator := Some a', calls := calls c @ [Call_RefreshToken],
                                      authToken := Some (Token_FromJSON E token tokenBytes)\<rparr>)))"
  using assms by (simp add: refreshToken_def Let_def split: option.splits sum.splits)

lemma refreshToken_Panics: "refreshToken E c = Panics \<longleftrightarrow> authenticator c = None"
  by (simp add: refreshToken_def Let_def split: option.splits sum.splits prod.splits)

lemma refreshToken_effect:
  assumes "refreshToken E c = Returns (r, c')"
  shows "storage c' = storage c \<and> calls c' = calls c @ [Call_RefreshToken]
         \<and> AuthnType c' = AuthnType c
         \<and> (r = None \<longrightarrow> authToken c' \<noteq> None) \<and> (r \<noteq> None \<longrightarrow> authToken c' = authToken c)"
  using assms
  by (auto simp: refreshToken_def Let_def split: option.splits sum.splits prod.splits)

lemma readCachedAccessToken_Returns:
  assumes "storage c = Some st"
    and "Storage_ReadAuthnToken E st = ((tokenBytes, err), st')"
  shows "readCachedAccessToken E c =
           Returns (case err of
                      Some e \<Rightarrow> None
                    | None \<Rightarrow> (case NewToken E tokenBytes of
                                 Inl e \<Rightarrow> None
                               | Inr token \<Rightarrow> Some (Token_FromJSON E token (Token_Raw E token))),
                    c\<lparr>storage := Some st', calls := calls c @ [Call_ReadAuthnToken]\<rparr>)"
  using assms by (simp add: readCachedAccessToken_def Let_def split: option.splits sum.splits)

lemma readCachedAccessToken_effect:
  assumes "readCachedAccessToken E c = Returns (tok, c')"
  shows "calls c' = calls c @ [Call_ReadAuthnToken] \<and> authToken c' = authToken c
         \<and> authenticator c' = authenticator c \<and> AuthnType c' = AuthnType c"
  using assms
  by (auto simp: readCachedAccessToken_def Let_def split: option.splits sum.splits prod.splits)

lemma fetchCachedToken_effect:
  assumes "fetchCachedToken E c = Returns c1"
  shows "(AuthnType c \<noteq> ''oidc'' \<longrightarrow> c1 = c)
         \<and> (calls c1 = calls c \<or> calls c1 = calls c @ [Call_ReadAuthnToken])
         \<and> authenticator c1 = authenticator c"
  using assms
  by (auto simp: fetchCachedToken_def split: if_splits outcome.splits option.splits
           dest!: readCachedAccessToken_effect)

lemma NeedsTokenRefresh_storage_calls:
  "NeedsTokenRefresh E (c\<lparr>storage := s, calls := l\<rparr>) = NeedsTokenRefresh E c"
  by (simp add: NeedsTokenRefresh_def split: option.splits)

lemma NeedsTokenRefresh_False_token:
  "NeedsTokenRefresh E c = Returns False \<Longrightarrow> authToken c \<noteq> None"
  by (auto simp: NeedsTokenRefresh_def split: option.splits if_splits)

lemma RefreshToken_nil_has_token:
  assumes "RefreshToken E c = Returns (None, c')"
  shows "authToken c' \<noteq> None"
  using assms
  by (auto simp: RefreshToken_def refreshIfNeeded_def split: outcome.splits if_splits
           dest: NeedsTokenRefresh_False_token refreshToken_effect)

text \<open>
  \<open>createAuthRequest\<close> reads \<open>c.authToken\<close> only after \<open>RefreshToken\<close> has returned
  nil, when there is a token: it panics only where \<open>RefreshToken\<close> does.
\<close>

lemma createAuthRequest_Panics:
  "createAuthRequest E c req = Panics \<longleftrightarrow> RefreshToken E c = Panics"
  by (auto simp: createAuthRequest_def split: outcome.splits option.splits
           dest: RefreshToken_nil_has_token)

text \<open>
  Claim C7. For every client, NeedsTokenRefresh returns true if and only if the client
  holds no token, or the held token's ShouldRefresh is true, or the authenticator's
  NeedsTokenRefresh is true; a client with no token always reports that a refresh is
  required. (The one case with no result at all is a fresh token on a client with a nil
  authenticator, where the third operand is a call on nil.)
\<close>

theorem NeedsTokenRefresh_true_iff:
  "(NeedsTokenRefresh E c = Returns True \<longleftrightarrow>
      authToken c = None
      \<or> (\<exists>t. authToken c = Some t \<and> Token_ShouldRefresh E t)
      \<or> (\<exists>a. authenticator c = Some a \<and> Authenticator_NeedsTokenRefresh E a))
   \<and> (NeedsTokenRefresh E c = Panics \<longleftrightarrow>
      (\<exists>t. authToken c = Some t \<and> \<not> Token_ShouldRefresh E t) \<and> authenticator c = None)"
  by (auto simp: NeedsTokenRefresh_def split: option.splits)

theorem NeedsTokenRefresh_true_iff_witness:
  "NeedsTokenRefresh stubEnv (stubClient ''apikey'' None (Some []) None) = Returns True
   \<and> NeedsTokenRefresh stubEnv (stubClient ''apikey'' (Some ''expired-token'') (Some []) None) = Returns True
   \<and> NeedsTokenRefresh stubEnv (stubClient ''apikey'' (Some ''fresh-token'') (Some []) None) \<noteq> Returns True"
  using NeedsTokenRefresh_true_iff [of stubEnv "stubClient ''apikey'' None (Some []) None"]
        NeedsTokenRefresh_true_iff [of stubEnv "stubClient ''apikey'' (Some ''expired-token'') (Some []) None"]
        NeedsTokenRefresh_true_iff [of stubEnv "stubClient ''apikey'' (Some ''fresh-token'') (Some []) None"]
  by (simp add: stubClient_def stubEnv_def)

text \<open>
  Claim C6. ForceRefreshToken performs exactly one refresh step unconditionally: its
  outcome does not depend on the staleness predicates that NeedsTokenRefresh consults; on
  a client with an authenticator it makes exactly one call of the authenticator's
  RefreshToken, and when that call returns bytes that parse, the token built from them
  replaces the current one, stale or not. (On a client whose authenticator is nil the one
  call is a call on nil.)
\<close>

theorem ForceRefreshToken_unconditional:
  "ForceRefreshToken (E\<lparr>Token_ShouldRefresh := p, Authenticator_NeedsTokenRefresh := q\<rparr>) c
     = ForceRefreshToken E c
   \<and> (authenticator c = Some a \<and> Authenticator_RefreshToken E a = ((tokenBytes, err), a') \<longrightarrow>
        (\<exists>r c'. ForceRefreshToken E c = Returns (r, c')
                \<and> calls c' = calls c @ [Call_RefreshToken]
                \<and> authenticator c' = Some a'))
   \<and> (authenticator c = Some a \<and> Authenticator_RefreshToken E a = ((tokenBytes, None), a')
        \<and> NewToken E tokenBytes = Inr token \<longrightarrow>
        ForceRefreshToken E c =
          Returns (None, c\<lparr>authenticator := Some a', calls := calls c @ [Call_RefreshToken],
                           authToken := Some (Token_FromJSON E token tokenBytes)\<rparr>))
   \<and> (authenticator c = None \<longrightarrow> ForceRefreshToken E c = Panics)"
proof -
  have indep: "ForceRefreshToken (E\<lparr>Token_ShouldRefresh := p, Authenticator_NeedsTokenRefresh := q\<rparr>) c
                 = ForceRefreshToken E c"
    by (simp add: ForceRefreshToken_def refreshToken_def Let_def
             split: option.splits prod.splits sum.splits)
  have once: "\<exists>r c'. ForceRefreshToken E c = Returns (r, c')
                \<and> calls c' = calls c @ [Call_RefreshToken] \<and> authenticator c' = Some a'"
    if "authenticator c = Some a" "Authenticator_RefreshToken E a = ((tokenBytes, err), a')"
    using refreshToken_Returns [OF that]
    by (auto simp: ForceRefreshToken_def split: option.splits sum.splits)
  have installs: "ForceRefreshToken E c =
          Returns (None, c\<lparr>authenticator := Some a', calls := calls c @ [Call_RefreshToken],
                           authToken := Some (Token_FromJSON E token tokenBytes)\<rparr>)"
    if "authenticator c = Some a" "Authenticator_RefreshToken E a = ((tokenBytes, None), a')"
       "NewToken E tokenBytes = Inr token"
    using refreshToken_Returns [OF that(1,2)] that(3) by (simp add: ForceRefreshToken_def)
  have nil: "ForceRefreshToken E c = Panics" if "authenticator c = None"
    using that by (simp add: ForceRefreshToken_def refreshToken_Panics)
  from indep once installs nil show ?thesis by blast
qed

theorem ForceRefreshToken_unconditional_witness:
  "NeedsTokenRefresh stubEnv
     (stubClient ''apikey'' (Some ''token-A'') (Some [(''token-B'', None)]) None) = Returns False
   \<and> ForceRefreshToken stubEnv
       (stubClient ''apikey'' (Some ''token-A'') (Some [(''token-B'', None)]) None)
     = Returns (None, \<lparr>AuthnType = ''apikey'', authToken = Some ''token-B'',
                       authenticator = Some [], storage = None, calls = [Call_RefreshToken]\<rparr>)"
  using ForceRefreshToken_unconditional
          [where E = stubEnv
             and c = "stubClient ''apikey'' (Some ''token-A'') (Some [(''token-B'', None)]) None"
             and a = "[(''token-B'', None)]" and tokenBytes = "''token-B''" and a' = "[]"
             and token = "''token-B''"]
  by (simp add: stubClient_def stubEnv_def NeedsTokenRefresh_def)

text \<open>
  Claim C3, as amended. When the refresh step fails (the authenticator's RefreshToken
  returns an error, or the bytes it returns do not parse), ForceRefreshToken returns that
  error, makes that one authenticator call and no other, and leaves authToken as it was.
  RefreshToken, when a refresh is needed and the step fails, returns that error after
  exactly one authenticator call and installs no token from the failed step. On a client
  whose AuthnType is not "oidc" authToken is then unchanged. On an "oidc" client it is
  the token that the cached-token read installed before the staleness check: the cached
  token when the storage gave a parseable one, and the client's previous token when the
  read failed or the bytes did not parse.
\<close>

theorem refresh_failure_returned:
  assumes "authenticator c = Some a"
    and "Authenticator_RefreshToken E a = ((tokenBytes, err), a')"
    and "err = Some e \<or> (err = None \<and> NewToken E tokenBytes = Inl e)"
  shows "ForceRefreshToken E c =
           Returns (Some e, c\<lparr>authenticator := Some a', calls := calls c @ [Call_RefreshToken]\<rparr>)
         \<and> (AuthnType c \<noteq> ''oidc'' \<and> NeedsTokenRefresh E c = Returns True \<longrightarrow>
              RefreshToken E c =
                Returns (Some e,
                  c\<lparr>authenticator := Some a', calls := calls c @ [Call_RefreshToken]\<rparr>))
         \<and> (AuthnType c = ''oidc'' \<and> storage c = Some st
              \<and> Storage_ReadAuthnToken E st = ((b, None), st') \<and> NewToken E b = Inr tok
              \<and> (Token_ShouldRefresh E (Token_FromJSON E tok (Token_Raw E tok))
                  \<or> Authenticator_NeedsTokenRefresh E a) \<longrightarrow>
              RefreshToken E c =
                Returns (Some e,
                  c\<lparr>authToken := Some (Token_FromJSON E tok (Token_Raw E tok)),
                    authenticator := Some a', storage := Some st',
                    calls := calls c @ [Call_ReadAuthnToken, Call_RefreshToken]\<rparr>))
         \<and> (AuthnType c = ''oidc'' \<and> storage c = Some st
              \<and> Storage_ReadAuthnToken E st = ((b, rerr), st')
              \<and> (rerr \<noteq> None \<or> (\<exists>pe. NewToken E b = Inl pe))
              \<and> NeedsTokenRefresh E c = Returns True \<longrightarrow>
              RefreshToken E c =
                Returns (Some e,
                  c\<lparr>authenticator := Some a', storage := Some st',
                    calls := calls c @ [Call_ReadAuthnToken, Call_RefreshToken]\<rparr>))"
proof -
  have step: "refreshToken E d =
           Returns (Some e, d\<lparr>authenticator := Some a', calls := calls d @ [Call_RefreshToken]\<rparr>)"
    if "authenticator d = Some a" for d
    using refreshToken_Returns [OF that assms(2)] assms(3) by auto
  have force: "ForceRefreshToken E c =
           Returns (Some e, c\<lparr>authenticator := Some a', calls := calls c @ [Call_RefreshToken]\<rparr>)"
    using step [OF assms(1)] by (simp add: ForceRefreshToken_def)
  have plain: "RefreshToken E c =
                Returns (Some e,
                  c\<lparr>authenticator := Some a', calls := calls c @ [Call_RefreshToken]\<rparr>)"
    if "AuthnType c \<noteq> ''oidc''" "NeedsTokenRefresh E c = Returns True"
    using that step [OF assms(1)]
    by (simp add: RefreshToken_def fetchCachedToken_def refreshIfNeeded_def)
  have hit: "RefreshToken E c =
                Returns (Some e,
                  c\<lparr>authToken := Some (Token_FromJSON E tok (Token_Raw E tok)),
                    authenticator := Some a', storage := Some st',
                    calls := calls c @ [Call_ReadAuthnToken, Call_RefreshToken]\<rparr>)"
    if h: "AuthnType c = ''oidc''" "storage c = Some st"
       "Storage_ReadAuthnToken E st = ((b, None), st')" "NewToken E b = Inr tok"
       "Token_ShouldRefresh E (Token_FromJSON E tok (Token_Raw E tok))
          \<or> Authenticator_NeedsTokenRefresh E a"
  proof -
    let ?d = "c\<lparr>storage := Some st', calls := calls c @ [Call_ReadAuthnToken],
                 authToken := Some (Token_FromJSON E tok (Token_Raw E tok))\<rparr>"
    have f: "fetchCachedToken E c = Returns ?d"
      using readCachedAccessToken_Returns [OF h(2,3)] h(1,4)
      by (simp add: fetchCachedToken_def)
    have n: "NeedsTokenRefresh E ?d = Returns True"
      using h(5) assms(1) by (auto simp: NeedsTokenRefresh_def)
    have "authenticator ?d = Some a" using assms(1) by simp
    from step [OF this] f n show ?thesis
      by (simp add: RefreshToken_def refreshIfNeeded_def)
  qed
  have miss: "RefreshToken E c =
                Returns (Some e,
                  c\<lparr>authenticator := Some a', storage := Some st',
                    calls := calls c @ [Call_ReadAuthnToken, Call_RefreshToken]\<rparr>)"
    if h: "AuthnType c = ''oidc''" "storage c = Some st"
       "Storage_ReadAuthnToken E st = ((b, rerr), st')"
       "rerr \<noteq> None \<or> (\<exists>pe. NewToken E b = Inl pe)"
       "NeedsTokenRefresh E c = Returns True"
  proof -
    let ?d = "c\<lparr>storage := Some st', calls := calls c @ [Call_ReadAuthnToken]\<rparr>"
    have f: "fetchCachedToken E c = Returns ?d"
      using readCachedAccessToken_Returns [OF h(2,3)] h(1,4)
      by (auto simp: fetchCachedToken_def split: option.splits)
    have n: "NeedsTokenRefresh E ?d = Returns True"
      using h(5) by (simp add: NeedsTokenRefresh_storage_calls)
    have "authenticator ?d = Some a" using assms(1) by simp
    from step [OF this] f n show ?thesis
      by (simp add: RefreshToken_def refreshIfNeeded_def)
  qed
  have plainI: "AuthnType c \<noteq> ''oidc'' \<and> NeedsTokenRefresh E c = Returns True \<longrightarrow>
              RefreshToken E c =
                Returns (Some e,
                  c\<lparr>authenticator := Some a', calls := calls c @ [Call_RefreshToken]\<rparr>)"
    using plain by blast
  have hitI: "AuthnType c = ''oidc'' \<and> storage c = Some st
              \<and> Storage_ReadAuthnToken E st = ((b, None), st') \<and> NewToken E b = Inr tok
              \<and> (Token_ShouldRefresh E (Token_FromJSON E tok (Token_Raw E tok))
                  \<or> Authenticator_NeedsTokenRefresh E a) \<longrightarrow>
              RefreshToken E c =
                Returns (Some e,
                  c\<lparr>authToken := Some (Token_FromJSON E tok (Token_Raw E tok)),
                    authenticator := Some a', storage := Some st',
                    calls := calls c @ [Call_ReadAuthnToken, Call_RefreshToken]\<rparr>)"
    using hit by blast
  have missI: "AuthnType c = ''oidc'' \<and> storage c = Some st
              \<and> Storage_ReadAuthnToken E st = ((b, rerr), st')
              \<and> (rerr \<noteq> None \<or> (\<exists>pe. NewToken E b = Inl pe))
              \<and> NeedsTokenRefresh E c = Returns True \<longrightarrow>
              RefreshToken E c =
                Returns (Some e,
                  c\<lparr>authenticator := Some a', storage := Some st',
                    calls := calls c @ [Call_ReadAuthnToken, Call_RefreshToken]\<rparr>)"
    using miss by blast
  show ?thesis
    using force plainI hitI missI by (intro conjI) assumption+
qed

theorem refresh_failure_returned_witness:
  "ForceRefreshToken stubEnv (stubClient ''apikey'' (Some ''token-A'') (Some []) None)
     = Returns (Some (Error ''401 Invalid''),
                \<lparr>AuthnType = ''apikey'', authToken = Some ''token-A'', authenticator = Some [],
                  storage = None, calls = [Call_RefreshToken]\<rparr>)
   \<and> RefreshToken stubEnv (stubClient ''apikey'' (Some ''expired-token'') (Some []) None)
     = Returns (Some (Error ''401 Invalid''),
                \<lparr>AuthnType = ''apikey'', authToken = Some ''expired-token'', authenticator = Some [],
                  storage = None, calls = [Call_RefreshToken]\<rparr>)
   \<and> RefreshToken stubEnv
       (stubClient ''oidc'' (Some ''token-A'') (Some []) (Some (Some ''expired-token'', False)))
     = Returns (Some (Error ''401 Invalid''),
                \<lparr>AuthnType = ''oidc'', authToken = Some ''expired-token'', authenticator = Some [],
                  storage = Some (Some ''expired-token'', False),
                  calls = [Call_ReadAuthnToken, Call_RefreshToken]\<rparr>)
   \<and> RefreshToken stubEnv
       (stubClient ''oidc'' (Some ''expired-token'') (Some [([], None)]) (Some (None, True)))
     = Returns (Some (Error ''malformed token''),
                \<lparr>AuthnType = ''oidc'', authToken = Some ''expired-token'', authenticator = Some [],
                  storage = Some (None, True),
                  calls = [Call_ReadAuthnToken, Call_RefreshToken]\<rparr>)"
  using refresh_failure_returned
          [where E = stubEnv and a = "[]" and tokenBytes = "[]" and a' = "[]"
             and err = "Some (Error ''401 Invalid'')" and e = "Error ''401 Invalid''"
             and c = "stubClient ''apikey'' (Some ''token-A'') (Some []) None"]
        refresh_failure_returned
          [where E = stubEnv and a = "[]" and tokenBytes = "[]" and a' = "[]"
             and err = "Some (Error ''401 Invalid'')" and e = "Error ''401 Invalid''"
             and c = "stubClient ''apikey'' (Some ''expired-token'') (Some []) None"]
        refresh_failure_returned
          [where E = stubEnv and a = "[]" and tokenBytes = "[]" and a' = "[]"
             and err = "Some (Error ''401 Invalid'')" and e = "Error ''401 Invalid''"
             and c = "stubClient ''oidc'' (Some ''token-A'') (Some [])
                        (Some (Some ''expired-token'', False))"
             and st = "(Some ''expired-token'', False)" and st' = "(Some ''expired-token'', False)"
             and b = "''expired-token''" and tok = "''expired-token''"]
        refresh_failure_returned
          [where E = stubEnv and a = "[([], None)]" and tokenBytes = "[]" and a' = "[]"
             and err = None and e = "Error ''malformed token''"
             and c = "stubClient ''oidc'' (Some ''expired-token'') (Some [([], None)])
                        (Some (None, True))"
             and st = "(None, True)" and st' = "(None, True)"
             and b = "[]" and rerr = "Some (Error ''store unavailable'')"]
  by (simp add: stubClient_def stubEnv_def NeedsTokenRefresh_def)

text \<open>
  The claim as first stated fails for RefreshToken on an OIDC client: the store holds an
  expired token, the client holds \<open>token-A\<close>, and the authenticator refuses. The error
  is returned, and authToken is now the expired cached token.
\<close>

theorem refresh_failure_token_changed:
  "RefreshToken stubEnv
     (stubClient ''oidc'' (Some ''token-A'') (Some []) (Some (Some ''expired-token'', False)))
     = Returns (Some (Error ''401 Invalid''),
                \<lparr>AuthnType = ''oidc'', authToken = Some ''expired-token'', authenticator = Some [],
                  storage = Some (Some ''expired-token'', False),
                  calls = [Call_ReadAuthnToken, Call_RefreshToken]\<rparr>)
   \<and> authToken (stubClient ''oidc'' (Some ''token-A'') (Some [])
                   (Some (Some ''expired-token'', False))) = Some ''token-A''"
  by (simp add: RefreshToken_def fetchCachedToken_def readCachedAccessToken_def
        refreshIfNeeded_def NeedsTokenRefresh_def refreshToken_def stubClient_def stubEnv_def)

text \<open>
  Claim C1, as amended. A refresh installs the new token in memory only: refreshToken
  makes no call on the credential storage and leaves it as it was, and RefreshToken adds
  to the calls made nothing but the cached-token read and the authenticator call, so no
  StoreAuthnToken. The token is written through the storage by OidcAuthenticate: when the
  remote exchange succeeds and the client has a storage, StoreAuthnToken is called once
  with the response bytes, and whatever error it returns is dropped.
\<close>

theorem token_store_write:
  "(refreshToken E c = Returns (r, c') \<longrightarrow>
      storage c' = storage c \<and> calls c' = calls c @ [Call_RefreshToken])
   \<and> (RefreshToken E c = Returns (r, c') \<longrightarrow>
      (\<exists>made. calls c' = calls c @ made \<and> set made \<subseteq> {Call_ReadAuthnToken, Call_RefreshToken}))
   \<and> (OidcAuthenticateRequest E code nonce code_verifier = Inr req
        \<and> httpClient_Do E req = Inr res \<and> DataResponse E res = (resp, None)
        \<and> storage c = Some st \<longrightarrow>
      OidcAuthenticate E c code nonce code_verifier =
        ((resp, None),
         c\<lparr>storage := Some (snd (Storage_StoreAuthnToken E st resp)),
           calls := calls c @ [Call_StoreAuthnToken resp]\<rparr>))"
proof -
  have a: "storage c' = storage c \<and> calls c' = calls c @ [Call_RefreshToken]"
    if "refreshToken E c = Returns (r, c')"
    using refreshToken_effect [OF that] by simp
  have b: "\<exists>made. calls c' = calls c @ made \<and> set made \<subseteq> {Call_ReadAuthnToken, Call_RefreshToken}"
    if h: "RefreshToken E c = Returns (r, c')"
  proof -
    from h obtain c1 where c1: "fetchCachedToken E c = Returns c1"
      and rest: "refreshIfNeeded E c1 = Returns (r, c')"
      by (auto simp: RefreshToken_def split: outcome.splits)
    from fetchCachedToken_effect [OF c1]
    have f: "calls c1 = calls c @ [] \<or> calls c1 = calls c @ [Call_ReadAuthnToken]" by simp
    from rest have g: "calls c' = calls c1 @ [] \<or> calls c' = calls c1 @ [Call_RefreshToken]"
      by (auto simp: refreshIfNeeded_def split: outcome.splits if_splits dest: refreshToken_effect)
    from f g show ?thesis by auto
  qed
  have c: "OidcAuthenticate E c code nonce code_verifier =
        ((resp, None),
         c\<lparr>storage := Some (snd (Storage_StoreAuthnToken E st resp)),
           calls := calls c @ [Call_StoreAuthnToken resp]\<rparr>)"
    if "OidcAuthenticateRequest E code nonce code_verifier = Inr req"
       "httpClient_Do E req = Inr res" "DataResponse E res = (resp, None)" "storage c = Some st"
    using that by (simp add: OidcAuthenticate_def split: prod.splits)
  from a b c show ?thesis by blast
qed

theorem token_store_write_witness:
  "refreshToken stubEnv
     (stubClient ''apikey'' None (Some [(''fresh-token'', None)]) (Some (None, False)))
     = Returns (None, \<lparr>AuthnType = ''apikey'', authToken = Some ''fresh-token'',
                       authenticator = Some [], storage = Some (None, False),
                       calls = [Call_RefreshToken]\<rparr>)
   \<and> OidcAuthenticate stubEnv (stubClient ''oidc'' None None (Some (None, True)))
         ''code'' ''nonce'' ''verifier''
     = ((''data'', None),
        \<lparr>AuthnType = ''oidc'', authToken = None, authenticator = None,
          storage = Some (None, True), calls = [Call_StoreAuthnToken ''data'']\<rparr>)
   \<and> OidcAuthenticate stubEnv (stubClient ''oidc'' None None (Some (None, False)))
         ''code'' ''nonce'' ''verifier''
     = ((''data'', None),
        \<lparr>AuthnType = ''oidc'', authToken = None, authenticator = None,
          storage = Some (Some ''data'', False), calls = [Call_StoreAuthnToken ''data'']\<rparr>)"
  using token_store_write
          [where E = stubEnv and r = None
             and c = "stubClient ''apikey'' None (Some [(''fresh-token'', None)]) (Some (None, False))"
             and c' = "\<lparr>AuthnType = ''apikey'', authToken = Some ''fresh-token'',
                         authenticator = Some [], storage = Some (None, False),
                         calls = [Call_RefreshToken]\<rparr>"]
        token_store_write
          [where E = stubEnv and c = "stubClient ''oidc'' None None (Some (None, True))"
             and code = "''code''" and nonce = "''nonce''" and code_verifier = "''verifier''"
             and req = "\<lparr>Method = ''POST'', URL = ''/authn-oidc/authenticate'',
                          Header = Map.empty, Body = ''code''\<rparr>"
             and res = "\<lparr>StatusCode = 200, ResponseBody = ''data''\<rparr>"
             and resp = "''data''" and st = "(None, True)"]
        token_store_write
          [where E = stubEnv and c = "stubClient ''oidc'' None None (Some (None, False))"
             and code = "''code''" and nonce = "''nonce''" and code_verifier = "''verifier''"
             and req = "\<lparr>Method = ''POST'', URL = ''/authn-oidc/authenticate'',
                          Header = Map.empty, Body = ''code''\<rparr>"
             and res = "\<lparr>StatusCode = 200, ResponseBody = ''data''\<rparr>"
             and resp = "''data''" and st = "(None, False)"]
  by (simp add: stubClient_def stubEnv_def refreshToken_def)

text \<open>
  The claim as first stated fails: a refresh that succeeds on a client with a working
  storage makes one call, the authenticator's, and the storage still caches no token,
  as reading it afterwards shows.
\<close>

theorem refresh_writes_nothing:
  "refreshToken stubEnv
     (stubClient ''apikey'' None (Some [(''fresh-token'', None)]) (Some (None, False)))
     = Returns (None, \<lparr>AuthnType = ''apikey'', authToken = Some ''fresh-token'',
                       authenticator = Some [], storage = Some (None, False),
                       calls = [Call_RefreshToken]\<rparr>)
   \<and> Storage_ReadAuthnToken stubEnv (None, False)
       = (([], Some (Error ''no cached token'')), (None, False))
   \<and> Call_StoreAuthnToken ''fresh-token'' \<notin> set [Call_RefreshToken]"
  by (simp add: refreshToken_def stubClient_def stubEnv_def)

text \<open>
  Claim C2, as amended. A failed ReadAuthnToken or an unparseable cached token is a cache
  miss: readCachedAccessToken returns nil and no error. A failed StoreAuthnToken does not
  change what OidcAuthenticate returns when the remote call succeeded. Login, when the
  remote call succeeded, returns the API key together with whatever error
  StoreCredentials returned (nil when the client has no storage): a failed write is
  reported to the caller, next to the key. PurgeCredentials returns the error of the
  storage's purge (nil when the client has no storage).
\<close>

theorem storage_failure_policy:
  "(storage c = Some st \<and> Storage_ReadAuthnToken E st = ((b, err), st')
      \<and> (err \<noteq> None \<or> (\<exists>e. NewToken E b = Inl e)) \<longrightarrow>
      readCachedAccessToken E c =
        Returns (None, c\<lparr>storage := Some st', calls := calls c @ [Call_ReadAuthnToken]\<rparr>))
   \<and> (OidcAuthenticateRequest E code nonce code_verifier = Inr req
        \<and> httpClient_Do E req = Inr res \<and> DataResponse E res = (resp, None) \<longrightarrow>
      fst (OidcAuthenticate E c code nonce code_verifier) = (resp, None))
   \<and> (LoginRequest E login password = Inr lreq
        \<and> httpClient_Do E lreq = Inr lres \<and> DataResponse E lres = (apiKey, None) \<longrightarrow>
      fst (Client_Login E c login password) =
        (apiKey, case storage c of
                   None \<Rightarrow> None
                 | Some s \<Rightarrow> fst (Storage_StoreCredentials E s login apiKey)))
   \<and> fst (PurgeCredentials E c) =
       (case storage c of None \<Rightarrow> None | Some s \<Rightarrow> fst (Storage_PurgeCredentials E s))"
proof -
  have miss: "readCachedAccessToken E c =
        Returns (None, c\<lparr>storage := Some st', calls := calls c @ [Call_ReadAuthnToken]\<rparr>)"
    if "storage c = Some st" "Storage_ReadAuthnToken E st = ((b, err), st')"
       "err \<noteq> None \<or> (\<exists>e. NewToken E b = Inl e)"
    using readCachedAccessToken_Returns [OF that(1,2)] that(3)
    by (auto split: option.splits)
  have oidc: "fst (OidcAuthenticate E c code nonce code_verifier) = (resp, None)"
    if "OidcAuthenticateRequest E code nonce code_verifier = Inr req"
       "httpClient_Do E req = Inr res" "DataResponse E res = (resp, None)"
    using that by (simp add: OidcAuthenticate_def split: option.splits prod.splits)
  have login: "fst (Client_Login E c login password) =
        (apiKey, case storage c of
                   None \<Rightarrow> None
                 | Some s \<Rightarrow> fst (Storage_StoreCredentials E s login apiKey))"
    if "LoginRequest E login password = Inr lreq"
       "httpClient_Do E lreq = Inr lres" "DataResponse E lres = (apiKey, None)"
    using that by (simp add: Client_Login_def split: option.splits prod.splits)
  have purge: "fst (PurgeCredentials E c) =
       (case storage c of None \<Rightarrow> None | Some s \<Rightarrow> fst (Storage_PurgeCredentials E s))"
    by (simp add: PurgeCredentials_def split: option.splits prod.splits)
  from miss oidc login purge show ?thesis by blast
qed

theorem storage_failure_policy_witness:
  "readCachedAccessToken stubEnv (stubClient ''oidc'' None None (Some (Some ''token-A'', True)))
     = Returns (None, \<lparr>AuthnType = ''oidc'', authToken = None, authenticator = None,
                       storage = Some (Some ''token-A'', True), calls = [Call_ReadAuthnToken]\<rparr>)
   \<and> fst (OidcAuthenticate stubEnv (stubClient ''oidc'' None None (Some (Some ''token-A'', True)))
            ''code'' ''nonce'' ''verifier'') = (''data'', None)
   \<and> fst (Client_Login stubEnv (stubClient ''oidc'' None None (Some (Some ''token-A'', True)))
            ''alice'' ''secret'') = (''data'', Some (Error ''store unavailable''))
   \<and> fst (PurgeCredentials stubEnv (stubClient ''oidc'' None None (Some (Some ''token-A'', True))))
       = Some (Error ''store unavailable'')"
  using storage_failure_policy
          [where E = stubEnv and c = "stubClient ''oidc'' None None (Some (Some ''token-A'', True))"
             and st = "(Some ''token-A'', True)" and st' = "(Some ''token-A'', True)"
             and b = "[]" and err = "Some (Error ''store unavailable'')"
             and code = "''code''" and nonce = "''nonce''" and code_verifier = "''verifier''"
             and req = "\<lparr>Method = ''POST'', URL = ''/authn-oidc/authenticate'',
                          Header = Map.empty, Body = ''code''\<rparr>"
             and res = "\<lparr>StatusCode = 200, ResponseBody = ''data''\<rparr>"
             and resp = "''data''"
             and login = "''alice''" and password = "''secret''"
             and lreq = "\<lparr>Method = ''GET'', URL = ''/authn/login'', Header = Map.empty,
                           Body = []\<rparr>"
             and lres = "\<lparr>StatusCode = 200, ResponseBody = ''data''\<rparr>"
             and apiKey = "''data''"]
  by (simp add: stubClient_def stubEnv_def)

text \<open>
  The claim as first stated fails for Login: the remote call succeeds and returns the key
  \<open>data\<close>, the storage refuses the write, and Login returns that error with the key.
\<close>

theorem Login_returns_store_error:
  "Client_Login stubEnv (stubClient ''apikey'' None None (Some (None, True))) ''alice'' ''secret''
     = ((''data'', Some (Error ''store unavailable'')),
        \<lparr>AuthnType = ''apikey'', authToken = None, authenticator = None,
          storage = Some (None, True), calls = [Call_StoreCredentials ''alice'' ''data'']\<rparr>)"
  by (simp add: Client_Login_def stubClient_def stubEnv_def)

text \<open>
  Claim C4. On a client whose AuthnType is "oidc", RefreshToken first reads and parses
  the cached token of the credential storage. When that succeeds, the cached token is
  installed as authToken, and NeedsTokenRefresh is evaluated on the client so changed:
  it asks for a refresh exactly when the cached token should be refreshed or the
  authenticator asks for one, whatever token the client held before; when it does not,
  the call ends there with the cached token in place and no authenticator call, and when
  it does, refreshToken runs on the client with the cached token. When the read fails
  or the bytes do not parse, that is a cache miss: no error is returned for it,
  NeedsTokenRefresh is evaluated on the client with its token as it was, and the call
  goes on from that state. (The read is a call on \<open>c.storage\<close>; on a client with no
  storage at all it is a call on nil.)
\<close>

theorem RefreshToken_oidc_reads_cache_first:
  assumes "AuthnType c = ''oidc''"
  shows "(storage c = Some st \<and> Storage_ReadAuthnToken E st = ((b, None), st')
            \<and> NewToken E b = Inr tok \<longrightarrow>
            RefreshToken E c =
              (case NeedsTokenRefresh E
                      (c\<lparr>storage := Some st', calls := calls c @ [Call_ReadAuthnToken],
                         authToken := Some (Token_FromJSON E tok (Token_Raw E tok))\<rparr>) of
                 Panics \<Rightarrow> Panics
               | Returns needed \<Rightarrow>
                   if needed then
                     refreshToken E
                       (c\<lparr>storage := Some st', calls := calls c @ [Call_ReadAuthnToken],
                          authToken := Some (Token_FromJSON E tok (Token_Raw E tok))\<rparr>)
                   else
                     Returns (None,
                       c\<lparr>storage := Some st', calls := calls c @ [Call_ReadAuthnToken],
                         authToken := Some (Token_FromJSON E tok (Token_Raw E tok))\<rparr>))
            \<and> (NeedsTokenRefresh E
                      (c\<lparr>storage := Some st', calls := calls c @ [Call_ReadAuthnToken],
                         authToken := Some (Token_FromJSON E tok (Token_Raw E tok))\<rparr>)
                  = Returns True
                \<longleftrightarrow> Token_ShouldRefresh E (Token_FromJSON E tok (Token_Raw E tok))
                    \<or> (\<exists>a. authenticator c = Some a \<and> Authenticator_NeedsTokenRefresh E a)))
         \<and> (storage c = Some st \<and> Storage_ReadAuthnToken E st = ((b, None), st')
            \<and> NewToken E b = Inr tok
            \<and> \<not> Token_ShouldRefresh E (Token_FromJSON E tok (Token_Raw E tok))
            \<and> authenticator c = Some a \<and> \<not> Authenticator_NeedsTokenRefresh E a \<longrightarrow>
            RefreshToken E c =
              Returns (None,
                c\<lparr>storage := Some st', calls := calls c @ [Call_ReadAuthnToken],
                  authToken := Some (Token_FromJSON E tok (Token_Raw E tok))\<rparr>))
         \<and> (storage c = Some st \<and> Storage_ReadAuthnToken E st = ((b, err), st')
            \<and> (err \<noteq> None \<or> (\<exists>e. NewToken E b = Inl e)) \<longrightarrow>
            RefreshToken E c =
              (case NeedsTokenRefresh E c of
                 Panics \<Rightarrow> Panics
               | Returns needed \<Rightarrow>
                   if needed then
                     refreshToken E
                       (c\<lparr>storage := Some st', calls := calls c @ [Call_ReadAuthnToken]\<rparr>)
                   else
                     Returns (None,
                       c\<lparr>storage := Some st', calls := calls c @ [Call_ReadAuthnToken]\<rparr>)))
         \<and> (storage c = None \<longrightarrow> RefreshToken E c = Panics)"
proof -
  let ?hit = "c\<lparr>storage := Some st', calls := calls c @ [Call_ReadAuthnToken],
                 authToken := Some (Token_FromJSON E tok (Token_Raw E tok))\<rparr>"
  let ?miss = "c\<lparr>storage := Some st', calls := calls c @ [Call_ReadAuthnToken]\<rparr>"
  have hit: "RefreshToken E c =
              (case NeedsTokenRefresh E ?hit of
                 Panics \<Rightarrow> Panics
               | Returns needed \<Rightarrow>
                   if needed then refreshToken E ?hit else Returns (None, ?hit))"
    if "storage c = Some st" "Storage_ReadAuthnToken E st = ((b, None), st')"
       "NewToken E b = Inr tok"
    using readCachedAccessToken_Returns [OF that(1,2)] that(3) assms
    by (simp add: RefreshToken_def fetchCachedToken_def refreshIfNeeded_def)
  have stale: "NeedsTokenRefresh E ?hit = Returns True
                \<longleftrightarrow> Token_ShouldRefresh E (Token_FromJSON E tok (Token_Raw E tok))
                    \<or> (\<exists>a. authenticator c = Some a \<and> Authenticator_NeedsTokenRefresh E a)"
    by (auto simp: NeedsTokenRefresh_def split: option.splits)
  have fresh: "RefreshToken E c = Returns (None, ?hit)"
    if "storage c = Some st" "Storage_ReadAuthnToken E st = ((b, None), st')"
       "NewToken E b = Inr tok"
       "\<not> Token_ShouldRefresh E (Token_FromJSON E tok (Token_Raw E tok))"
       "authenticator c = Some a" "\<not> Authenticator_NeedsTokenRefresh E a"
    using hit [OF that(1-3)] that(4-6)
    by (simp add: NeedsTokenRefresh_def)
  have same: "NeedsTokenRefresh E ?miss = NeedsTokenRefresh E c"
    by (rule NeedsTokenRefresh_storage_calls)
  have miss: "RefreshToken E c =
              (case NeedsTokenRefresh E c of
                 Panics \<Rightarrow> Panics
               | Returns needed \<Rightarrow>
                   if needed then refreshToken E ?miss else Returns (None, ?miss))"
    if "storage c = Some st" "Storage_ReadAuthnToken E st = ((b, err), st')"
       "err \<noteq> None \<or> (\<exists>e. NewToken E b = Inl e)"
  proof -
    have "fetchCachedToken E c = Returns ?miss"
      using readCachedAccessToken_Returns [OF that(1,2)] that(3) assms
      by (auto simp: fetchCachedToken_def split: option.splits)
    then show ?thesis
      by (simp add: RefreshToken_def refreshIfNeeded_def same)
  qed
  have nil: "RefreshToken E c = Panics" if "storage c = None"
    using that assms
    by (simp add: RefreshToken_def fetchCachedToken_def readCachedAccessToken_def)
  have hitI: "storage c = Some st \<and> Storage_ReadAuthnToken E st = ((b, None), st')
            \<and> NewToken E b = Inr tok \<longrightarrow>
            RefreshToken E c =
              (case NeedsTokenRefresh E ?hit of
                 Panics \<Rightarrow> Panics
               | Returns needed \<Rightarrow>
                   if needed then refreshToken E ?hit else Returns (None, ?hit))
            \<and> (NeedsTokenRefresh E ?hit = Returns True
                \<longleftrightarrow> Token_ShouldRefresh E (Token_FromJSON E tok (Token_Raw E tok))
                    \<or> (\<exists>a. authenticator c = Some a \<and> Authenticator_NeedsTokenRefresh E a))"
    using hit stale by blast
  have freshI: "storage c = Some st \<and> Storage_ReadAuthnToken E st = ((b, None), st')
            \<and> NewToken E b = Inr tok
            \<and> \<not> Token_ShouldRefresh E (Token_FromJSON E tok (Token_Raw E tok))
            \<and> authenticator c = Some a \<and> \<not> Authenticator_NeedsTokenRefresh E a \<longrightarrow>
            RefreshToken E c = Returns (None, ?hit)"
    using fresh by blast
  have missI: "storage c = Some st \<and> Storage_ReadAuthnToken E st = ((b, err), st')
            \<and> (err \<noteq> None \<or> (\<exists>e. NewToken E b = Inl e)) \<longrightarrow>
            RefreshToken E c =
              (case NeedsTokenRefresh E c of
                 Panics \<Rightarrow> Panics
               | Returns needed \<Rightarrow>
                   if needed then refreshToken E ?miss else Returns (None, ?miss))"
    using miss by blast
  have nilI: "storage c = None \<longrightarrow> RefreshToken E c = Panics"
    using nil by blast
  show ?thesis
    using hitI freshI missI nilI by (intro conjI) assumption+
qed

theorem RefreshToken_oidc_reads_cache_first_witness:
  "RefreshToken stubEnv
     (stubClient ''oidc'' None (Some []) (Some (Some ''fresh-token'', False)))
     = Returns (None, \<lparr>AuthnType = ''oidc'', authToken = Some ''fresh-token'',
                       authenticator = Some [], storage = Some (Some ''fresh-token'', False),
                       calls = [Call_ReadAuthnToken]\<rparr>)
   \<and> RefreshToken stubEnv
       (stubClient ''oidc'' (Some ''token-A'') (Some [(''token-B'', None)])
          (Some (Some ''expired-token'', False)))
     = Returns (None, \<lparr>AuthnType = ''oidc'', authToken = Some ''token-B'',
                       authenticator = Some [], storage = Some (Some ''expired-token'', False),
                       calls = [Call_ReadAuthnToken, Call_RefreshToken]\<rparr>)
   \<and> RefreshToken stubEnv
       (stubClient ''oidc'' (Some ''token-A'') (Some []) (Some (Some ''fresh-token'', True)))
     = Returns (None, \<lparr>AuthnType = ''oidc'', authToken = Some ''token-A'',
                       authenticator = Some [], storage = Some (Some ''fresh-token'', True),
                       calls = [Call_ReadAuthnToken]\<rparr>)
   \<and> RefreshToken stubEnv
       (stubClient ''oidc'' None (Some [(''token-B'', None)]) (Some (None, False)))
     = Returns (None, \<lparr>AuthnType = ''oidc'', authToken = Some ''token-B'',
                       authenticator = Some [], storage = Some (None, False),
                       calls = [Call_ReadAuthnToken, Call_RefreshToken]\<rparr>)"
  using RefreshToken_oidc_reads_cache_first
          [where E = stubEnv
             and c = "stubClient ''oidc'' None (Some []) (Some (Some ''fresh-token'', False))"
             and st = "(Some ''fresh-token'', False)" and st' = "(Some ''fresh-token'', False)"
             and b = "''fresh-token''" and tok = "''fresh-token''" and a = "[]"]
        RefreshToken_oidc_reads_cache_first
          [where E = stubEnv
             and c = "stubClient ''oidc'' (Some ''token-A'') (Some [(''token-B'', None)])
                        (Some (Some ''expired-token'', False))"
             and st = "(Some ''expired-token'', False)" and st' = "(Some ''expired-token'', False)"
             and b = "''expired-token''" and tok = "''expired-token''"]
        RefreshToken_oidc_reads_cache_first
          [where E = stubEnv
             and c = "stubClient ''oidc'' (Some ''token-A'') (Some []) (Some (Some ''fresh-token'', True))"
             and st = "(Some ''fresh-token'', True)" and st' = "(Some ''fresh-token'', True)"
             and b = "[]" and err = "Some (Error ''store unavailable'')"]
        RefreshToken_oidc_reads_cache_first
          [where E = stubEnv
             and c = "stubClient ''oidc'' None (Some [(''token-B'', None)]) (Some (None, False))"
             and st = "(None, False)" and st' = "(None, False)"
             and b = "[]" and err = "Some (Error ''no cached token'')"]
  by (simp add: stubClient_def stubEnv_def NeedsTokenRefresh_def refreshToken_def)

text \<open>
  Claim C5, as amended. On a client whose AuthnType is "oidc" and which has an
  authenticator and a credential storage, InternalAuthenticate returns the raw bytes of
  the cached token (the very bytes the storage holds, \<open>Raw\<close> being exact) when the
  storage holds a parseable token that need not be refreshed, and otherwise (the read
  fails, the bytes do not parse, or the token should be refreshed) no bytes and the error
  asking to log in again; in both cases the authenticator is not called. On a client with
  no authenticator it returns no bytes and the error "unable to authenticate using client
  without authenticator", whatever the storage holds.
\<close>

theorem InternalAuthenticate_oidc:
  assumes "AuthnType c = ''oidc''"
  shows "(authenticator c = Some a \<and> storage c = Some st
            \<and> Storage_ReadAuthnToken E st = ((b, None), st') \<and> NewToken E b = Inr tok
            \<and> \<not> Token_ShouldRefresh E (Token_FromJSON E tok (Token_Raw E tok)) \<longrightarrow>
            InternalAuthenticate E c =
              Returns ((Token_Raw E (Token_FromJSON E tok (Token_Raw E tok)), None),
                       c\<lparr>storage := Some st', calls := calls c @ [Call_ReadAuthnToken]\<rparr>)
            \<and> (Raw_exact E \<longrightarrow> Token_Raw E (Token_FromJSON E tok (Token_Raw E tok)) = b))
         \<and> (authenticator c = Some a \<and> storage c = Some st
            \<and> Storage_ReadAuthnToken E st = ((b, err), st')
            \<and> (err \<noteq> None \<or> (\<exists>e. NewToken E b = Inl e)
                \<or> (\<exists>t. NewToken E b = Inr t
                        \<and> Token_ShouldRefresh E (Token_FromJSON E t (Token_Raw E t)))) \<longrightarrow>
            InternalAuthenticate E c =
              Returns (([], Some (Error ''No valid OIDC token found. Please login again.'')),
                       c\<lparr>storage := Some st', calls := calls c @ [Call_ReadAuthnToken]\<rparr>))
         \<and> (authenticator c = None \<longrightarrow>
            InternalAuthenticate E c =
              Returns (([], Some (Error ''unable to authenticate using client without authenticator'')),
                       c))"
proof -
  have hit: "InternalAuthenticate E c =
              Returns ((Token_Raw E (Token_FromJSON E tok (Token_Raw E tok)), None),
                       c\<lparr>storage := Some st', calls := calls c @ [Call_ReadAuthnToken]\<rparr>)"
    if "authenticator c = Some a" "storage c = Some st"
       "Storage_ReadAuthnToken E st = ((b, None), st')" "NewToken E b = Inr tok"
       "\<not> Token_ShouldRefresh E (Token_FromJSON E tok (Token_Raw E tok))"
    using readCachedAccessToken_Returns [OF that(2,3)] that(1,4,5) assms
    by (simp add: InternalAuthenticate_def)
  have exact: "Token_Raw E (Token_FromJSON E tok (Token_Raw E tok)) = b"
    if "NewToken E b = Inr tok" "Raw_exact E"
    using that by (simp add: Raw_exact_def)
  have other: "InternalAuthenticate E c =
              Returns (([], Some (Error ''No valid OIDC token found. Please login again.'')),
                       c\<lparr>storage := Some st', calls := calls c @ [Call_ReadAuthnToken]\<rparr>)"
    if "authenticator c = Some a" "storage c = Some st"
       "Storage_ReadAuthnToken E st = ((b, err), st')"
       "err \<noteq> None \<or> (\<exists>e. NewToken E b = Inl e)
          \<or> (\<exists>t. NewToken E b = Inr t \<and> Token_ShouldRefresh E (Token_FromJSON E t (Token_Raw E t)))"
    using readCachedAccessToken_Returns [OF that(2,3)] that(1,4) assms
    by (auto simp: InternalAuthenticate_def split: option.splits sum.splits)
  have nil: "InternalAuthenticate E c =
              Returns (([], Some (Error ''unable to authenticate using client without authenticator'')), c)"
    if "authenticator c = None"
    using that by (simp add: InternalAuthenticate_def)
  from hit exact other nil show ?thesis by blast
qed

theorem InternalAuthenticate_oidc_witness:
  "Raw_exact stubEnv
   \<and> InternalAuthenticate stubEnv
       (stubClient ''oidc'' None (Some [(''token-B'', None)]) (Some (Some ''fresh-token'', False)))
     = Returns ((''fresh-token'', None),
                \<lparr>AuthnType = ''oidc'', authToken = None,
                  authenticator = Some [(''token-B'', None)],
                  storage = Some (Some ''fresh-token'', False), calls = [Call_ReadAuthnToken]\<rparr>)
   \<and> InternalAuthenticate stubEnv
       (stubClient ''oidc'' None (Some [(''token-B'', None)]) (Some (Some ''expired-token'', False)))
     = Returns (([], Some (Error ''No valid OIDC token found. Please login again.'')),
                \<lparr>AuthnType = ''oidc'', authToken = None,
                  authenticator = Some [(''token-B'', None)],
                  storage = Some (Some ''expired-token'', False), calls = [Call_ReadAuthnToken]\<rparr>)"
proof -
  have exact: "Raw_exact stubEnv"
    by (auto simp: Raw_exact_def stubEnv_def split: if_splits)
  show ?thesis
    using exact
      InternalAuthenticate_oidc
          [where E = stubEnv
             and c = "stubClient ''oidc'' None (Some [(''token-B'', None)])
                        (Some (Some ''fresh-token'', False))"
             and a = "[(''token-B'', None)]"
             and st = "(Some ''fresh-token'', False)" and st' = "(Some ''fresh-token'', False)"
             and b = "''fresh-token''" and tok = "''fresh-token''"]
      InternalAuthenticate_oidc
          [where E = stubEnv
             and c = "stubClient ''oidc'' None (Some [(''token-B'', None)])
                        (Some (Some ''expired-token'', False))"
             and a = "[(''token-B'', None)]"
             and st = "(Some ''expired-token'', False)" and st' = "(Some ''expired-token'', False)"
             and b = "''expired-token''" and err = None]
    by (simp add: stubClient_def stubEnv_def)
qed

text \<open>
  The claim as first stated fails on an OIDC client with no authenticator: the storage
  holds a parseable token that need not be refreshed, and InternalAuthenticate returns no
  bytes and the error of its first check.
\<close>

theorem InternalAuthenticate_without_authenticator:
  "InternalAuthenticate stubEnv
     (stubClient ''oidc'' None None (Some (Some ''fresh-token'', False)))
     = Returns (([], Some (Error ''unable to authenticate using client without authenticator'')),
                \<lparr>AuthnType = ''oidc'', authToken = None, authenticator = None,
                  storage = Some (Some ''fresh-token'', False), calls = []\<rparr>)
   \<and> Storage_ReadAuthnToken stubEnv (Some ''fresh-token'', False)
       = ((''fresh-token'', None), (Some ''fresh-token'', False))
   \<and> NewToken stubEnv ''fresh-token'' = Inr ''fresh-token''
   \<and> \<not> Token_ShouldRefresh stubEnv ''fresh-token''"
  by (simp add: InternalAuthenticate_def stubClient_def stubEnv_def)

text \<open>
  Claim C8. Stamping a request with a token sets the Authorization header to exactly one
  value, the fixed encoding \<open>Token token="<base64(Raw())>"\<close> of the token's raw bytes,
  whatever the header held before, and touches nothing else of the request; stamping
  twice with the same token gives the same request as stamping once. createAuthRequest,
  when it returns no error, has stamped the request with the client's current token, and
  when it returns an error has left the request alone; a second successful call under
  the same token leaves the stamped request as it is.
\<close>

theorem Authorization_header_stamp:
  "Header (setAuthorization raw req) ''Authorization''
     = Some [''Token token='' @ [CHR 0x22] @ EncodeToString raw @ [CHR 0x22]]
   \<and> (\<forall>k. k \<noteq> ''Authorization'' \<longrightarrow> Header (setAuthorization raw req) k = Header req k)
   \<and> Method (setAuthorization raw req) = Method req
   \<and> URL (setAuthorization raw req) = URL req
   \<and> Body (setAuthorization raw req) = Body req
   \<and> setAuthorization raw (setAuthorization raw req) = setAuthorization raw req
   \<and> (createAuthRequest E c req = Returns (None, c', req') \<longrightarrow>
        (\<exists>t. authToken c' = Some t \<and> req' = setAuthorization (Token_Raw E t) req))
   \<and> (createAuthRequest E c req = Returns (Some e, c', req') \<longrightarrow> req' = req)
   \<and> (createAuthRequest E c req = Returns (None, c', req')
        \<and> createAuthRequest E c' req' = Returns (None, c'', req'')
        \<and> authToken c'' = authToken c' \<longrightarrow> req'' = req')"
proof -
  have val: "Header (setAuthorization raw req) ''Authorization''
     = Some [''Token token='' @ [CHR 0x22] @ EncodeToString raw @ [CHR 0x22]]"
    by (simp add: setAuthorization_def Header_Set_def authHeaderValue_def)
  have others: "\<forall>k. k \<noteq> ''Authorization'' \<longrightarrow> Header (setAuthorization raw req) k = Header req k"
    by (simp add: setAuthorization_def Header_Set_def)
  have m: "Method (setAuthorization raw req) = Method req"
    and u: "URL (setAuthorization raw req) = URL req"
    and b: "Body (setAuthorization raw req) = Body req"
    by (simp_all add: setAuthorization_def)
  have idem: "setAuthorization r (setAuthorization r q) = setAuthorization r q" for r q
    by (simp add: setAuthorization_def Header_Set_def)
  have ok: "\<exists>t. authToken c' = Some t \<and> req' = setAuthorization (Token_Raw E t) req"
    if "createAuthRequest E c req = Returns (None, c', req')" for c c' req req'
    using that
    by (auto simp: createAuthRequest_def split: outcome.splits option.splits)
  have err: "req' = req" if "createAuthRequest E c req = Returns (Some e, c', req')"
    using that
    by (auto simp: createAuthRequest_def split: outcome.splits option.splits)
  have twice: "req'' = req'"
    if h: "createAuthRequest E c req = Returns (None, c', req')"
          "createAuthRequest E c' req' = Returns (None, c'', req'')"
          "authToken c'' = authToken c'"
  proof -
    from ok [OF h(1)] obtain t where t: "authToken c' = Some t"
      "req' = setAuthorization (Token_Raw E t) req" by blast
    from ok [OF h(2)] obtain u where u: "authToken c'' = Some u"
      "req'' = setAuthorization (Token_Raw E u) req'" by blast
    from t u h(3) have "u = t" by simp
    with t u show ?thesis by (simp add: idem)
  qed
  have okI: "createAuthRequest E c req = Returns (None, c', req') \<longrightarrow>
        (\<exists>t. authToken c' = Some t \<and> req' = setAuthorization (Token_Raw E t) req)"
    using ok by blast
  have errI: "createAuthRequest E c req = Returns (Some e, c', req') \<longrightarrow> req' = req"
    using err by blast
  have twiceI: "createAuthRequest E c req = Returns (None, c', req')
        \<and> createAuthRequest E c' req' = Returns (None, c'', req'')
        \<and> authToken c'' = authToken c' \<longrightarrow> req'' = req'"
    using twice by blast
  show ?thesis
    using val others m u b idem [of raw req] okI errI twiceI
    by (intro conjI) assumption+
qed

theorem Authorization_header_stamp_witness:
  "createAuthRequest stubEnv
     (stubClient ''apikey'' None (Some [(''fresh-token'', None)]) None) stubRequest
     = Returns (None,
                \<lparr>AuthnType = ''apikey'', authToken = Some ''fresh-token'',
                  authenticator = Some [], storage = None, calls = [Call_RefreshToken]\<rparr>,
                setAuthorization ''fresh-token'' stubRequest)
   \<and> Header (setAuthorization ''fresh-token'' stubRequest) ''Authorization''
     = Some [''Token token='' @ [CHR 0x22] @ ''ZnJlc2gtdG9rZW4='' @ [CHR 0x22]]
   \<and> Header (setAuthorization ''fresh-token'' stubRequest) ''Content-Type'' = None"
  using Authorization_header_stamp
          [where raw = "''fresh-token''" and req = stubRequest and E = stubEnv
             and c = "stubClient ''apikey'' None (Some [(''fresh-token'', None)]) None"
             and c' = "\<lparr>AuthnType = ''apikey'', authToken = Some ''fresh-token'',
                         authenticator = Some [], storage = None, calls = [Call_RefreshToken]\<rparr>"
             and req' = "setAuthorization ''fresh-token'' stubRequest"]
  by (simp add: createAuthRequest_def RefreshToken_def fetchCachedToken_def refreshIfNeeded_def
        NeedsTokenRefresh_def refreshToken_def stubClient_def stubEnv_def stubRequest_def
        encode6_def encodeStd_def)

text \<open>
  Claim C9. For a token issued at time T, with refresh margin M and token lifetime L,
  ShouldRefresh queried at time t is false for every t < T + (L - M) and true for every
  t \<ge> T + (L - M); it is a function of the issuance time and the query time alone.
\<close>

theorem ShouldRefresh_threshold:
  "(now < issuedAt t + (L - M) \<longrightarrow> \<not> ShouldRefresh L M now t)
   \<and> (issuedAt t + (L - M) \<le> now \<longrightarrow> ShouldRefresh L M now t)
   \<and> (issuedAt t' = issuedAt t \<longrightarrow> ShouldRefresh L M now t' = ShouldRefresh L M now t)"
  by (auto simp: ShouldRefresh_def Let_def)

theorem ShouldRefresh_threshold_witness:
  "\<not> ShouldRefresh 480 120 1359 \<lparr>rawBytes = ''token-A'', issuedAt = 1000\<rparr>
   \<and> ShouldRefresh 480 120 1360 \<lparr>rawBytes = ''token-A'', issuedAt = 1000\<rparr>
   \<and> ShouldRefresh 480 120 1360 \<lparr>rawBytes = ''token-B'', issuedAt = 1000\<rparr>"
  using ShouldRefresh_threshold
          [where L = 480 and M = 120 and now = 1359
             and t = "\<lparr>rawBytes = ''token-A'', issuedAt = 1000\<rparr>"]
        ShouldRefresh_threshold
          [where L = 480 and M = 120 and now = 1360
             and t = "\<lparr>rawBytes = ''token-A'', issuedAt = 1000\<rparr>"
             and t' = "\<lparr>rawBytes = ''token-B'', issuedAt = 1000\<rparr>"]
  by simp

end
